theory Spec2Isabelle
  imports Complex_Main "HOL-Library.Word"
begin

section \<open>TuneGAN text-to-music page (app.py): a shallow embedding\<close>

text \<open>
  The program is one Streamlit script, \<^verbatim>\<open>app.py\<close>. Its own logic is four helpers
  (\<^verbatim>\<open>load_model\<close>, \<^verbatim>\<open>generate_music\<close>, \<^verbatim>\<open>save_waveform\<close>, \<^verbatim>\<open>download_link\<close>) and the
  body of the page. Everything else is a call into a library: the MusicGen model, the
  audio codec, the file system, the Streamlit widgets, base64. The embedding keeps the
  script's own control flow as it is written and makes every library call explicit:
  the effects on the process and the disk are passed along in a \<open>world\<close>, the
  behaviour of the collaborators that the script cannot determine (what the model
  generates, whether a download or a write succeeds, how a waveform is serialised) is a
  parameter \<open>env\<close>, and every exception is a value.
\<close>

subsection \<open>Python values\<close>

text \<open>
  A Python \<^verbatim>\<open>str\<close> is a sequence of Unicode code points, \<^verbatim>\<open>bytes\<close> a sequence of
  octets. \<open>lit\<close> writes an ASCII literal of the source as a \<^verbatim>\<open>str\<close>.
\<close>

type_synonym pystr = "nat list"
type_synonym byte = "8 word"
type_synonym pybytes = "byte list"

definition lit :: "string \<Rightarrow> pystr" where
  "lit s = map of_char s"

datatype error =
    LoadError | GenerationError | IndexError | OSError | FileExistsError
  | FileNotFoundError | StreamlitAPIException

subsubsection \<open>\<^verbatim>\<open>str.strip()\<close>\<close>

text \<open>
  \<^verbatim>\<open>str.strip()\<close> without argument removes leading and trailing white space, where
  white space is what \<^verbatim>\<open>str.isspace\<close> accepts: the code points below.
\<close>

definition py_isspace :: "nat \<Rightarrow> bool" where
  "py_isspace c \<longleftrightarrow>
     (0x09 \<le> c \<and> c \<le> 0x0D) \<or> (0x1C \<le> c \<and> c \<le> 0x20) \<or> c = 0x85 \<or> c = 0xA0
     \<or> c = 0x1680 \<or> (0x2000 \<le> c \<and> c \<le> 0x200A) \<or> c = 0x2028 \<or> c = 0x2029
     \<or> c = 0x202F \<or> c = 0x205F \<or> c = 0x3000"

definition strip :: "pystr \<Rightarrow> pystr" where
  "strip s = rev (dropWhile py_isspace (rev (dropWhile py_isspace s)))"

subsubsection \<open>Formatting an integer in an f-string\<close>

fun digits :: "nat \<Rightarrow> pystr" where
  "digits n = (if n < 10 then [48 + n] else digits (n div 10) @ [48 + n mod 10])"

declare digits.simps [simp del]

definition str_int :: "int \<Rightarrow> pystr" where
  "str_int i = (if i < 0 then 45 # digits (nat (- i)) else digits (nat i))"

subsubsection \<open>\<^verbatim>\<open>base64.b64encode\<close> and the decoder of the same alphabet\<close>

text \<open>
  The standard alphabet of RFC 4648: \<^verbatim>\<open>A-Z a-z 0-9 + /\<close>, with \<^verbatim>\<open>=\<close> as padding and no
  line breaks, which is what \<^verbatim>\<open>base64.b64encode\<close> produces.
\<close>

definition b64_char :: "nat \<Rightarrow> byte" where
  "b64_char i =
     (if i < 26 then of_nat (65 + i)
      else if i < 52 then of_nat (97 + (i - 26))
      else if i < 62 then of_nat (48 + (i - 52))
      else if i = 62 then 43 else 47)"

definition b64_pad :: byte where
  "b64_pad = 61"

definition b64_index :: "byte \<Rightarrow> nat option" where
  "b64_index b =
     (let c = unat b in
      if 65 \<le> c \<and> c \<le> 90 then Some (c - 65)
      else if 97 \<le> c \<and> c \<le> 122 then Some (c - 97 + 26)
      else if 48 \<le> c \<and> c \<le> 57 then Some (c - 48 + 52)
      else if c = 43 then Some 62
      else if c = 47 then Some 63
      else None)"

fun b64encode :: "pybytes \<Rightarrow> pybytes" where
  "b64encode [] = []"
| "b64encode [x] =
     [b64_char (unat x div 4), b64_char (unat x mod 4 * 16), b64_pad, b64_pad]"
| "b64encode [x, y] =
     [b64_char (unat x div 4), b64_char (unat x mod 4 * 16 + unat y div 16),
      b64_char (unat y mod 16 * 4), b64_pad]"
| "b64encode (x # y # z # rest) =
     [b64_char (unat x div 4), b64_char (unat x mod 4 * 16 + unat y div 16),
      b64_char (unat y mod 16 * 4 + unat z div 64), b64_char (unat z mod 64)]
     @ b64encode rest"

text \<open>
  The decoder is the inverse direction of the same standard: four characters give
  three octets, a final group may end in one or two padding characters. Anything else
  is rejected (\<open>None\<close>).
\<close>

fun b64decode :: "pybytes \<Rightarrow> pybytes option" where
  "b64decode [] = Some []"
| "b64decode (a # b # c # d # rest) =
     (if rest = [] \<and> d = b64_pad then
        (if c = b64_pad then
           (case (b64_index a, b64_index b) of
              (Some i, Some j) \<Rightarrow> Some [of_nat (i * 4 + j div 16)]
            | _ \<Rightarrow> None)
         else
           (case (b64_index a, b64_index b, b64_index c) of
              (Some i, Some j, Some k) \<Rightarrow>
                Some [of_nat (i * 4 + j div 16), of_nat (j mod 16 * 16 + k div 4)]
            | _ \<Rightarrow> None))
      else
        (case (b64_index a, b64_index b, b64_index c, b64_index d) of
           (Some i, Some j, Some k, Some l) \<Rightarrow>
             (case b64decode rest of
                Some bs \<Rightarrow>
                  Some (of_nat (i * 4 + j div 16) # of_nat (j mod 16 * 16 + k div 4)
                        # of_nat (k mod 4 * 64 + l) # bs)
              | None \<Rightarrow> None)
         | _ \<Rightarrow> None))"
| "b64decode _ = None"

subsubsection \<open>\<^verbatim>\<open>bytes.decode()\<close> on ASCII\<close>

text \<open>
  \<^verbatim>\<open>bytes.decode()\<close> decodes UTF-8. The script applies it to the output of
  \<^verbatim>\<open>b64encode\<close> only, which is ASCII (lemma \<open>b64encode_ascii\<close> below); there UTF-8
  decoding cannot fail and gives each octet as its code point.
\<close>

definition ascii_decode :: "pybytes \<Rightarrow> pystr" where
  "ascii_decode bs = map unat bs"

definition ascii_encode :: "pystr \<Rightarrow> pybytes" where
  "ascii_encode s = map of_nat s"

subsubsection \<open>\<^verbatim>\<open>pathlib.Path\<close>\<close>

text \<open>
  A relative path is the list of its components. \<open>path_div\<close> is the operator \<^verbatim>\<open>/\<close>
  with a right operand that has no separator in it, which is the only use the script
  makes of it; \<open>path_str\<close> is \<^verbatim>\<open>str(path)\<close> with the POSIX separator, \<open>path_name\<close>
  the attribute \<^verbatim>\<open>.name\<close>.
\<close>

type_synonym path = "pystr list"

definition path_div :: "path \<Rightarrow> pystr \<Rightarrow> path" where
  "path_div p s = p @ [s]"

fun path_str :: "path \<Rightarrow> pystr" where
  "path_str [] = [46]"
| "path_str [c] = c"
| "path_str (c # cs) = c @ [47] @ path_str cs"

definition path_name :: "path \<Rightarrow> pystr" where
  "path_name p = (if p = [] then [] else last p)"

subsection \<open>The collaborators\<close>

text \<open>
  A waveform is the tensor \<^verbatim>\<open>[C, T]\<close> that the model returns: one list of samples per
  channel. The script never looks at a sample. An audio file is what
  \<^verbatim>\<open>torchaudio.save\<close> is given to write: the samples and the sample rate.
\<close>

type_synonym waveform = "real list list"

definition frames :: "waveform \<Rightarrow> nat" where
  "frames wave = (case wave of [] \<Rightarrow> 0 | ch # _ \<Rightarrow> length ch)"

record audio_file =
  af_wave :: waveform
  af_rate :: int

definition seconds :: "audio_file \<Rightarrow> real" where
  "seconds f = real (frames (af_wave f)) / real_of_int (af_rate f)"

text \<open>
  The MusicGen object: the checkpoint its weights were loaded from, and the generation
  parameters that \<^verbatim>\<open>set_generation_params\<close> stores in the object. Of those the script
  names three; the others are reset to the library's defaults by the same call and
  never vary.
\<close>

record gen_params =
  gp_use_sampling :: bool
  gp_top_k :: int
  gp_duration :: int

record musicgen =
  pretrained :: pystr
  generation_params :: gen_params

text \<open>
  What the script cannot determine is a parameter:
  \<^item> \<open>get_pretrained\<close>: \<^verbatim>\<open>MusicGen.get_pretrained\<close>, which downloads and loads the
    weights and may fail; its first argument counts the earlier attempts of the process;
  \<^item> \<open>model_generate\<close>: what \<^verbatim>\<open>model.generate\<close> returns for a model in a given state
    and a list of prompts, a batch of waveforms or a fault; sampling is stochastic, so
    the result may also depend on the number of earlier requests of the process (the
    first argument);
  \<^item> \<open>wav_bytes\<close>: the octets of the file that the codec writes for an audio file;
  \<^item> \<open>writable\<close>: whether a file can be written at a path;
  \<^item> \<open>can_mkdir\<close>: whether a directory exists at a path or can be created there.
\<close>

record env =
  get_pretrained :: "nat \<Rightarrow> pystr \<Rightarrow> error + musicgen"
  model_generate :: "nat \<Rightarrow> musicgen \<Rightarrow> pystr list \<Rightarrow> error + waveform list"
  wav_bytes :: "audio_file \<Rightarrow> pybytes"
  writable :: "pystr \<Rightarrow> bool"
  can_mkdir :: "pystr \<Rightarrow> bool"

text \<open>
  The state of the running process and of the disk:
  \<^item> \<open>heap\<close>, \<open>next_ref\<close>: the model objects, by reference; references below
    \<open>next_ref\<close> are allocated;
  \<^item> \<open>cache\<close>: the entry that \<^verbatim>\<open>@st.cache_resource\<close> keeps for \<^verbatim>\<open>load_model\<close>, a
    function without arguments: empty until a call has returned, then the reference
    that call returned, for the life of the process;
  \<^item> \<open>loads\<close>: how many times \<^verbatim>\<open>MusicGen.get_pretrained\<close> has been called;
  \<^item> \<open>requests\<close>: the calls of \<^verbatim>\<open>model.generate\<close> made so far, oldest first, each
    with the state of the model object at the call and the prompts;
  \<^item> \<open>files\<close>: the regular files on disk, by \<^verbatim>\<open>str(path)\<close>.
\<close>

record world =
  heap :: "nat \<Rightarrow> musicgen"
  next_ref :: nat
  cache :: "nat option"
  loads :: nat
  requests :: "(musicgen \<times> pystr list) list"
  files :: "pystr \<rightharpoonup> audio_file"

subsection \<open>The helpers of app.py\<close>

definition AUDIO_DIR :: path where
  "AUDIO_DIR = [lit ''audio_output'']"

text \<open>\<^verbatim>\<open>AUDIO_DIR.mkdir(exist_ok=True)\<close>; directories are not part of \<open>files\<close>.\<close>

definition mkdir_exist_ok :: "env \<Rightarrow> path \<Rightarrow> world \<Rightarrow> error + unit" where
  "mkdir_exist_ok env p w =
     (if files w (path_str p) \<noteq> None then Inl FileExistsError
      else if can_mkdir env (path_str p) then Inr ()
      else Inl OSError)"

definition load_model :: "env \<Rightarrow> world \<Rightarrow> (error + nat) \<times> world" where
  "load_model env w =
     (case cache w of
        Some r \<Rightarrow> (Inr r, w)
      | None \<Rightarrow>
          (case get_pretrained env (loads w) (lit ''facebook/musicgen-small'') of
             Inl e \<Rightarrow> (Inl e, w\<lparr>loads := Suc (loads w)\<rparr>)
           | Inr m \<Rightarrow>
               (Inr (next_ref w),
                w\<lparr>heap := (heap w)(next_ref w := m), next_ref := Suc (next_ref w),
                  cache := Some (next_ref w), loads := Suc (loads w)\<rparr>)))"

text \<open>
  \<^verbatim>\<open>model.set_generation_params(use_sampling=..., top_k=..., duration=...)\<close> assigns
  attributes of the object that \<open>model\<close> refers to.
\<close>

definition set_generation_params :: "nat \<Rightarrow> bool \<Rightarrow> int \<Rightarrow> int \<Rightarrow> world \<Rightarrow> world" where
  "set_generation_params model use_sampling top_k duration w =
     w\<lparr>heap := (heap w)(model := (heap w model)
          \<lparr>generation_params :=
             \<lparr>gp_use_sampling = use_sampling, gp_top_k = top_k, gp_duration = duration\<rparr>\<rparr>)\<rparr>"

text \<open>\<^verbatim>\<open>model.generate(descriptions, progress=True)\<close>.\<close>

definition generate :: "env \<Rightarrow> nat \<Rightarrow> pystr list \<Rightarrow> world \<Rightarrow> (error + waveform list) \<times> world" where
  "generate env model descriptions w =
     (model_generate env (length (requests w)) (heap w model) descriptions,
      w\<lparr>requests := requests w @ [(heap w model, descriptions)]\<rparr>)"

definition generate_music :: "env \<Rightarrow> pystr \<Rightarrow> int \<Rightarrow> world \<Rightarrow> (error + waveform) \<times> world" where
  "generate_music env description duration w =
     (case load_model env w of
        (Inl e, w1) \<Rightarrow> (Inl e, w1)
      | (Inr model, w1) \<Rightarrow>
          (case generate env model [description]
                  (set_generation_params model True 250 duration w1) of
             (Inl e, w2) \<Rightarrow> (Inl e, w2)
           | (Inr batch, w2) \<Rightarrow>
               (case batch of
                  [] \<Rightarrow> (Inl IndexError, w2)
                | wave # _ \<Rightarrow> (Inr wave, w2))))"

text \<open>\<^verbatim>\<open>torchaudio.save(str(path), wave.detach().cpu(), sr)\<close>: creates or replaces the file.\<close>

definition torchaudio_save :: "env \<Rightarrow> pystr \<Rightarrow> waveform \<Rightarrow> int \<Rightarrow> world \<Rightarrow> (error + unit) \<times> world" where
  "torchaudio_save env p wave sr w =
     (if writable env p
      then (Inr (), w\<lparr>files := (files w)(p \<mapsto> \<lparr>af_wave = wave, af_rate = sr\<rparr>)\<rparr>)
      else (Inl OSError, w))"

definition audio_path :: "int \<Rightarrow> path" where
  "audio_path idx = path_div AUDIO_DIR (lit ''audio_'' @ str_int idx @ lit ''.wav'')"

definition save_waveform :: "env \<Rightarrow> waveform \<Rightarrow> int \<Rightarrow> int \<Rightarrow> world \<Rightarrow> (error + path) \<times> world" where
  "save_waveform env wave idx sr w =
     (case torchaudio_save env (path_str (audio_path idx)) wave sr w of
        (Inl e, w1) \<Rightarrow> (Inl e, w1)
      | (Inr _, w1) \<Rightarrow> (Inr (audio_path idx), w1))"

definition read_bytes :: "env \<Rightarrow> path \<Rightarrow> world \<Rightarrow> error + pybytes" where
  "read_bytes env p w =
     (case files w (path_str p) of
        None \<Rightarrow> Inl FileNotFoundError
      | Some f \<Rightarrow> Inr (wav_bytes env f))"

definition link_html :: "pystr \<Rightarrow> pystr \<Rightarrow> pystr \<Rightarrow> pystr" where
  "link_html b64 name label =
     [10] @ lit ''        <a href='' @ [34] @ lit ''data:audio/wav;base64,'' @ b64 @ [34]
     @ lit '' download='' @ [34] @ name @ [34] @ lit ''>'' @ label @ [32, 0x2B07]
     @ lit ''</a>'' @ [10] @ lit ''    ''"

definition download_link :: "env \<Rightarrow> path \<Rightarrow> pystr \<Rightarrow> world \<Rightarrow> error + pystr" where
  "download_link env file_path label w =
     (case read_bytes env file_path w of
        Inl e \<Rightarrow> Inl e
      | Inr data \<Rightarrow>
          Inr (link_html (ascii_decode (b64encode data)) (path_name file_path) label))"

subsection \<open>The page\<close>

text \<open>
  What one run of the script shows, in order. The fixed furniture of the page (page
  configuration, style sheet, sidebar, title, caption, the About page) is the same in
  every run and is left out.
\<close>

datatype ui =
    Warning pystr | Info pystr | Success pystr | Subheader pystr
  | Markdown pystr | Audio pybytes pystr

datatype outcome = Completed | Stopped | Failed error

datatype page = Generate | About

text \<open>
  The widget state that the browser sends with a run: the page chosen in the sidebar,
  the text of the prompt field, the values the user has entered in the duration field
  so far (oldest first), and whether the button was pressed.
\<close>

record ui_input =
  in_page :: page
  in_description :: pystr
  in_duration_entries :: "int list"
  in_generate_btn :: bool

text \<open>
  \<^verbatim>\<open>st.number_input(label, min_value, max_value, value)\<close> with integer arguments (the
  fourth is \<open>initial\<close> here): the call is refused when the initial value is out of range;
  the widget starts at the initial value and does not commit an entry outside the range
  (the field keeps what it had).
\<close>

definition number_input :: "int \<Rightarrow> int \<Rightarrow> int \<Rightarrow> int list \<Rightarrow> error + int" where
  "number_input min_value max_value initial entries =
     (if min_value \<le> initial \<and> initial \<le> max_value
      then Inr (foldl (\<lambda>cur v. if min_value \<le> v \<and> v \<le> max_value then v else cur)
                  initial entries)
      else Inl StreamlitAPIException)"

definition warning_text :: pystr where
  "warning_text = lit ''Please enter a prompt first. '' @ [0x1F4AC]"

definition card_open :: pystr where
  "card_open = lit ''<div class='' @ [34] @ lit ''st-audio-card'' @ [34] @ lit ''>''"

definition success_text :: pystr where
  "success_text = lit ''Done! Enjoy your music. '' @ [0x1F3A7]"

text \<open>The body of \<^verbatim>\<open>if generate_btn:\<close>.\<close>

definition on_generate :: "env \<Rightarrow> pystr \<Rightarrow> int \<Rightarrow> world \<Rightarrow> outcome \<times> ui list \<times> world" where
  "on_generate env description duration w =
     (if strip description = [] then (Stopped, [Warning warning_text], w)
      else
        (case generate_music env description duration w of
           (Inl e, w1) \<Rightarrow> (Failed e, [], w1)
         | (Inr waveform, w1) \<Rightarrow>
             (case save_waveform env waveform 0 32000 w1 of
                (Inl e, w2) \<Rightarrow> (Failed e, [], w2)
              | (Inr file_path, w2) \<Rightarrow>
                  (case read_bytes env file_path w2 of
                     Inl e \<Rightarrow> (Failed e, [Markdown card_open, Subheader (lit ''Your Track'')], w2)
                   | Inr bs \<Rightarrow>
                       (case download_link env file_path (lit ''Save .wav'') w2 of
                          Inl e \<Rightarrow>
                            (Failed e,
                             [Markdown card_open, Subheader (lit ''Your Track''),
                              Audio bs (lit ''audio/wav'')], w2)
                        | Inr link \<Rightarrow>
                            (Completed,
                             [Markdown card_open, Subheader (lit ''Your Track''),
                              Audio bs (lit ''audio/wav''), Markdown link,
                              Markdown (lit ''</div>''), Success success_text], w2))))))"

definition run_script :: "env \<Rightarrow> ui_input \<Rightarrow> world \<Rightarrow> outcome \<times> ui list \<times> world" where
  "run_script env inp w =
     (case mkdir_exist_ok env AUDIO_DIR w of
        Inl e \<Rightarrow> (Failed e, [], w)
      | Inr _ \<Rightarrow>
          (case in_page inp of
             Generate \<Rightarrow>
               (case number_input 1 30 10 (in_duration_entries inp) of
                  Inl e \<Rightarrow> (Failed e, [], w)
                | Inr duration \<Rightarrow>
                    if in_generate_btn inp
                    then on_generate env (in_description inp) duration w
                    else (Completed,
                          [Info (lit ''Enter a prompt and hit **Generate Music** to begin.'')], w))
           | About \<Rightarrow> (Completed, [], w)))"

text \<open>A session: the script runs once per interaction, in one process.\<close>

fun run_session :: "env \<Rightarrow> ui_input list \<Rightarrow> world \<Rightarrow> world" where
  "run_session env [] w = w"
| "run_session env (inp # inps) w = run_session env inps (snd (snd (run_script env inp w)))"


subsection \<open>What the model is expected to return\<close>

text \<open>
  The script passes the duration on and writes what it gets back; how long the
  returned audio is, is up to the model. \<open>honours_duration env tol\<close> says that the
  model renders the duration it was set to, at 32 kHz, up to \<open>tol\<close> frames: every
  waveform of a batch returned for a model whose duration parameter is \<open>d \<ge> 0\<close> has
  \<open>32000 * d\<close> frames, give or take \<open>tol\<close>.
\<close>

definition honours_duration :: "env \<Rightarrow> nat \<Rightarrow> bool" where
  "honours_duration env tol \<longleftrightarrow>
     (\<forall>n m ds batch wave.
        model_generate env n m ds = Inr batch \<longrightarrow> wave \<in> set batch \<longrightarrow>
        0 \<le> gp_duration (generation_params m) \<longrightarrow>
        \<bar>int (frames wave) - 32000 * gp_duration (generation_params m)\<bar> \<le> int tol)"

subsection \<open>An example environment\<close>

text \<open>
  A small environment on which the definitions can be run: every load and every write
  succeeds, the model returns, for each prompt, one channel of silence of the requested
  number of seconds at 32 kHz, and the codec is a toy that writes three octets (the
  rate in kHz, the length in seconds at 32 kHz, the number of channels).
\<close>

definition demo_env :: env where
  "demo_env =
     \<lparr>get_pretrained = (\<lambda>n name. Inr \<lparr>pretrained = name,
          generation_params = \<lparr>gp_use_sampling = True, gp_top_k = 250, gp_duration = 15\<rparr>\<rparr>),
      model_generate = (\<lambda>n m ds.
          Inr (map (\<lambda>d. [replicate (nat (32000 * gp_duration (generation_params m))) 0]) ds)),
      wav_bytes = (\<lambda>f. [of_int (af_rate f div 1000), of_nat (frames (af_wave f) div 32000),
          of_nat (length (af_wave f))]),
      writable = (\<lambda>p. True),
      can_mkdir = (\<lambda>p. True)\<rparr>"

definition blank_model :: musicgen where
  "blank_model = \<lparr>pretrained = [],
     generation_params = \<lparr>gp_use_sampling = False, gp_top_k = 0, gp_duration = 0\<rparr>\<rparr>"

text \<open>A process that has just started, on an empty disk.\<close>

definition demo_world :: world where
  "demo_world =
     \<lparr>heap = (\<lambda>r. blank_model), next_ref = 0, cache = None, loads = 0, requests = [],
      files = Map.empty\<rparr>"

text \<open>The same process on a disk where an earlier run has left a file at the path.\<close>

definition stale_world :: world where
  "stale_world = demo_world\<lparr>files := [lit ''audio_output/audio_0.wav''
      \<mapsto> \<lparr>af_wave = [[1, 1], [1, 1]], af_rate = 44100\<rparr>]\<rparr>"

subsection \<open>Base64 round trip\<close>

lemma byte_bound: "unat (x :: byte) < 256"
  using unsigned_less [of x, where ?'a = nat] by simp

lemma unat_of_nat_byte: "n < 256 \<Longrightarrow> unat (of_nat n :: byte) = n"
  by (simp add: unat_of_nat)

lemma b64_index_of_nat:
  "n < 256 \<Longrightarrow> b64_index (of_nat n) =
     (if 65 \<le> n \<and> n \<le> 90 then Some (n - 65)
      else if 97 \<le> n \<and> n \<le> 122 then Some (n - 97 + 26)
      else if 48 \<le> n \<and> n \<le> 57 then Some (n - 48 + 52)
      else if n = 43 then Some 62
      else if n = 47 then Some 63
      else None)"
  by (simp only: b64_index_def unat_of_nat_byte Let_def)

lemma b64_char_of_nat:
  "b64_char i = of_nat (if i < 26 then 65 + i else if i < 52 then 97 + (i - 26)
     else if i < 62 then 48 + (i - 52) else if i = 62 then 43 else 47)"
  by (simp add: b64_char_def del: of_nat_add of_nat_diff)

lemma b64_index_char: "i < 64 \<Longrightarrow> b64_index (b64_char i) = Some i"
  by (subst b64_char_of_nat, subst b64_index_of_nat) (auto split: if_splits)

lemma b64_char_not_pad: "i < 64 \<Longrightarrow> b64_char i \<noteq> b64_pad"
proof
  assume "i < 64" and "b64_char i = b64_pad"
  then have "b64_index (b64_char i) = b64_index b64_pad" by simp
  with \<open>i < 64\<close> show False
    by (simp add: b64_index_char) (simp add: b64_index_def b64_pad_def)
qed


lemma b64_roundtrip: "b64decode (b64encode x) = Some x"
proof (induction x rule: b64encode.induct)
  case 1
  show ?case by simp
next
  case (2 x)
  have b: "unat x div 4 < 64" "unat x mod 4 * 16 < 64"
    using byte_bound [of x] by auto
  have "unat x div 4 * 4 + unat x mod 4 * 16 div 16 = unat x"
    by simp
  then have "of_nat (unat x div 4 * 4 + unat x mod 4 * 16 div 16) = x"
    by (simp del: of_nat_add of_nat_mult)
  then show ?case
    using b by (simp add: b64_index_char b64_char_not_pad del: of_nat_add of_nat_mult)
next
  case (3 x y)
  have b: "unat x div 4 < 64" "unat x mod 4 * 16 + unat y div 16 < 64"
      "unat y mod 16 * 4 < 64"
    using byte_bound [of x] byte_bound [of y] by auto
  have "unat x div 4 * 4 + (unat x mod 4 * 16 + unat y div 16) div 16 = unat x"
    using byte_bound [of y] by simp
  moreover have "(unat x mod 4 * 16 + unat y div 16) mod 16 * 16 + unat y mod 16 * 4 div 4 = unat y"
    using byte_bound [of y] by simp
  ultimately show ?case
    using b by (simp add: b64_index_char b64_char_not_pad del: of_nat_add of_nat_mult)
next
  case (4 x y z rest)
  have b: "unat x div 4 < 64" "unat x mod 4 * 16 + unat y div 16 < 64"
      "unat y mod 16 * 4 + unat z div 64 < 64" "unat z mod 64 < 64"
    using byte_bound [of x] byte_bound [of y] byte_bound [of z] by auto
  have "unat x div 4 * 4 + (unat x mod 4 * 16 + unat y div 16) div 16 = unat x"
    using byte_bound [of y] by simp
  moreover have "(unat x mod 4 * 16 + unat y div 16) mod 16 * 16
      + (unat y mod 16 * 4 + unat z div 64) div 4 = unat y"
    using byte_bound [of y] byte_bound [of z] by simp
  moreover have "(unat y mod 16 * 4 + unat z div 64) mod 4 * 64 + unat z mod 64 = unat z"
    using byte_bound [of z] by simp
  ultimately show ?case
    using b "4.IH" by (simp add: b64_index_char b64_char_not_pad del: of_nat_add of_nat_mult)
qed

subsection \<open>Facts about the helpers\<close>

lemma load_model_keeps:
  "load_model env w = (res, w1) \<Longrightarrow> files w1 = files w \<and> requests w1 = requests w"
  by (auto simp: load_model_def split: option.splits sum.splits)

lemma load_model_cached_world:
  "load_model env w = (Inr r, w1) \<Longrightarrow> cache w1 = Some r"
  by (auto simp: load_model_def split: option.splits sum.splits)

lemma generate_music_Inr:
  assumes "generate_music env description duration w = (Inr wave, w')"
  shows "\<exists>r w1 rest.
      load_model env w = (Inr r, w1)
    \<and> w' = (set_generation_params r True 250 duration w1)
              \<lparr>requests := requests w @ [(heap w' r, [description])]\<rparr>
    \<and> generation_params (heap w' r)
        = \<lparr>gp_use_sampling = True, gp_top_k = 250, gp_duration = duration\<rparr>
    \<and> model_generate env (length (requests w)) (heap w' r) [description] = Inr (wave # rest)"
proof -
  from assms obtain r w1 where l: "load_model env w = (Inr r, w1)"
    by (auto simp: generate_music_def split: prod.splits sum.splits)
  have k: "requests w1 = requests w"
    using load_model_keeps [OF l] by simp
  let ?w2 = "set_generation_params r True 250 duration w1"
  from assms l obtain rest where
    g: "generate env r [description] ?w2 = (Inr (wave # rest), w')"
    by (auto simp: generate_music_def split: prod.splits sum.splits list.splits)
  then show ?thesis
    using l k by (auto simp: generate_def set_generation_params_def)
qed


lemma generate_music_requests:
  assumes "generate_music env description duration w = (res, w')"
  shows "requests w' = requests w
    \<or> (\<exists>m. requests w' = requests w @ [(m, [description])]
          \<and> generation_params m
              = \<lparr>gp_use_sampling = True, gp_top_k = 250, gp_duration = duration\<rparr>)"
proof (cases "load_model env w")
  case (Pair lr w1)
  have k: "requests w1 = requests w"
    using load_model_keeps [OF Pair] by simp
  show ?thesis
  proof (cases lr)
    case (Inl e)
    with Pair assms k show ?thesis
      by (auto simp: generate_music_def)
  next
    case (Inr r)
    with Pair assms k show ?thesis
      by (auto simp: generate_music_def generate_def set_generation_params_def
          split: sum.splits list.splits)
  qed
qed

lemma generate_music_after_load:
  assumes "load_model env w = (Inr r, w1)"
  shows "generate_music env description duration w =
     (case model_generate env (length (requests w))
             ((heap w1 r)\<lparr>generation_params :=
                \<lparr>gp_use_sampling = True, gp_top_k = 250, gp_duration = duration\<rparr>\<rparr>)
             [description] of
        Inl e \<Rightarrow> Inl e
      | Inr [] \<Rightarrow> Inl IndexError
      | Inr (wave # rest) \<Rightarrow> Inr wave,
      w1\<lparr>heap := (heap w1)(r := (heap w1 r)\<lparr>generation_params :=
                \<lparr>gp_use_sampling = True, gp_top_k = 250, gp_duration = duration\<rparr>\<rparr>),
         requests := requests w @
           [((heap w1 r)\<lparr>generation_params :=
                \<lparr>gp_use_sampling = True, gp_top_k = 250, gp_duration = duration\<rparr>\<rparr>,
             [description])]\<rparr>)"
  using assms load_model_keeps [OF assms]
  by (simp add: generate_music_def generate_def set_generation_params_def
      split: sum.splits list.splits)

lemma generate_music_load_fails:
  "load_model env w = (Inl e, w1) \<Longrightarrow> generate_music env description duration w = (Inl e, w1)"
  by (simp add: generate_music_def)

lemma load_model_fails_world:
  "load_model env w = (Inl e, w1) \<Longrightarrow>
   cache w = None \<and> w1 = w\<lparr>loads := Suc (loads w)\<rparr>"
  by (auto simp: load_model_def split: option.splits sum.splits)

subsection \<open>The generation invoker\<close>

text \<open>
  C1. What a call of \<open>generate_music\<close> does is fixed by the load and by the reply of
  the model, for every prompt and duration (so in particular for every non-empty
  prompt). When the load fails, the call fails with that fault, and no request is made
  and no object is changed. When the load returns the model, the call sets the
  generation parameters of that object to sampling, top-k 250 and the duration of the
  call, and makes exactly one request to the model, with the list of exactly one
  prompt it was given; the model stays the cached one. The result is then decided by
  the reply to that one request: a fault of the model is the fault of the call, an
  empty batch is an \<open>IndexError\<close>, and otherwise the call returns one waveform, the
  first of the batch.
\<close>

theorem generate_music_one_prompt_one_waveform:
  "(\<forall>e w1. load_model env w = (Inl e, w1) \<longrightarrow>
       generate_music env description duration w = (Inl e, w1)
     \<and> requests w1 = requests w \<and> heap w1 = heap w)
   \<and> (\<forall>r w1. load_model env w = (Inr r, w1) \<longrightarrow>
       (\<exists>m w'.
          m = (heap w1 r)\<lparr>generation_params :=
                \<lparr>gp_use_sampling = True, gp_top_k = 250, gp_duration = duration\<rparr>\<rparr>
        \<and> w' = w1\<lparr>heap := (heap w1)(r := m),
                   requests := requests w @ [(m, [description])]\<rparr>
        \<and> cache w' = Some r
        \<and> length (snd (last (requests w'))) = 1
        \<and> generate_music env description duration w =
            (case model_generate env (length (requests w)) m [description] of
               Inl e \<Rightarrow> Inl e
             | Inr [] \<Rightarrow> Inl IndexError
             | Inr (wave # rest) \<Rightarrow> Inr wave,
             w')))"
proof (intro conjI allI impI)
  fix e w1 assume l: "load_model env w = (Inl e, w1)"
  show "generate_music env description duration w = (Inl e, w1)"
    using l by (rule generate_music_load_fails)
  show "requests w1 = requests w"
    using load_model_keeps [OF l] by simp
  show "heap w1 = heap w"
    using load_model_fails_world [OF l] by simp
next
  fix r w1 assume l: "load_model env w = (Inr r, w1)"
  let ?m = "(heap w1 r)\<lparr>generation_params :=
                \<lparr>gp_use_sampling = True, gp_top_k = 250, gp_duration = duration\<rparr>\<rparr>"
  let ?w' = "w1\<lparr>heap := (heap w1)(r := ?m), requests := requests w @ [(?m, [description])]\<rparr>"
  have c: "cache ?w' = Some r"
    using load_model_cached_world [OF l] by simp
  show "\<exists>m w'.
          m = ?m
        \<and> w' = w1\<lparr>heap := (heap w1)(r := m),
                   requests := requests w @ [(m, [description])]\<rparr>
        \<and> cache w' = Some r
        \<and> length (snd (last (requests w'))) = 1
        \<and> generate_music env description duration w =
            (case model_generate env (length (requests w)) m [description] of
               Inl e \<Rightarrow> Inl e
             | Inr [] \<Rightarrow> Inl IndexError
             | Inr (wave # rest) \<Rightarrow> Inr wave,
             w')"
    using c generate_music_after_load [OF l, of description duration]
    by (intro exI [of _ ?m] exI [of _ ?w']) simp
qed

theorem generate_music_one_prompt_one_waveform_witness:
  "load_model demo_env demo_world
     = (Inr 0, demo_world\<lparr>heap := (heap demo_world)(0 :=
           \<lparr>pretrained = lit ''facebook/musicgen-small'',
            generation_params = \<lparr>gp_use_sampling = True, gp_top_k = 250, gp_duration = 15\<rparr>\<rparr>),
         next_ref := 1, cache := Some 0, loads := 1\<rparr>)
   \<and> fst (generate_music demo_env (lit ''lofi'') 5 demo_world) = Inr [replicate 160000 0]
   \<and> requests (snd (generate_music demo_env (lit ''lofi'') 5 demo_world))
      = [(\<lparr>pretrained = lit ''facebook/musicgen-small'',
           generation_params = \<lparr>gp_use_sampling = True, gp_top_k = 250, gp_duration = 5\<rparr>\<rparr>,
          [lit ''lofi''])]"
proof -
  have l: "load_model demo_env demo_world
     = (Inr 0, demo_world\<lparr>heap := (heap demo_world)(0 :=
           \<lparr>pretrained = lit ''facebook/musicgen-small'',
            generation_params = \<lparr>gp_use_sampling = True, gp_top_k = 250, gp_duration = 15\<rparr>\<rparr>),
         next_ref := 1, cache := Some 0, loads := 1\<rparr>)"
    by (simp add: load_model_def demo_env_def demo_world_def)
  from generate_music_one_prompt_one_waveform [of demo_env demo_world "lit ''lofi''" 5] l show ?thesis
    by (simp add: demo_env_def demo_world_def)
qed

subsection \<open>Persistence\<close>

lemma audio_path_0: "path_str (audio_path 0) = lit ''audio_output/audio_0.wav''"
  by (simp add: audio_path_def AUDIO_DIR_def path_div_def str_int_def digits.simps lit_def)

lemma save_waveform_writable:
  "writable env (path_str (audio_path idx)) \<Longrightarrow>
   save_waveform env wave idx sr s
     = (Inr (audio_path idx),
        s\<lparr>files := (files s)(path_str (audio_path idx) \<mapsto> \<lparr>af_wave = wave, af_rate = sr\<rparr>)\<rparr>)"
  by (simp add: save_waveform_def torchaudio_save_def)

lemma save_waveform_not_writable:
  "\<not> writable env (path_str (audio_path idx)) \<Longrightarrow>
   save_waveform env wave idx sr s = (Inl OSError, s)"
  by (simp add: save_waveform_def torchaudio_save_def)



subsection \<open>The model accessor\<close>

text \<open>
  C4. When a call of \<open>load_model\<close> has returned a model, the next call in the same
  process returns the same reference and leaves the process as it is: it does not
  call \<^verbatim>\<open>MusicGen.get_pretrained\<close>, and the object behind the reference is the one
  the first call returned. Over the two calls the weights are loaded once if the
  cache was empty before the first, and not at all otherwise.
\<close>

theorem load_model_loads_once:
  assumes "load_model env w = (Inr r, w1)"
  shows "load_model env w1 = (Inr r, w1)
    \<and> cache w1 = Some r
    \<and> loads w1 = (if cache w = None then Suc (loads w) else loads w)"
  using assms by (auto simp: load_model_def split: option.splits sum.splits)

theorem load_model_loads_once_witness:
  "\<exists>w1. load_model demo_env demo_world = (Inr 0, w1)
     \<and> load_model demo_env w1 = (Inr 0, w1) \<and> loads w1 = 1 \<and> loads demo_world = 0"
proof -
  obtain w1 where h: "load_model demo_env demo_world = (Inr 0, w1)"
    by (simp add: load_model_def demo_env_def demo_world_def)
  from load_model_loads_once [OF h] h show ?thesis
    by (simp add: demo_world_def)
qed

subsection \<open>The download link\<close>

lemma ascii_encode_decode: "ascii_encode (ascii_decode bs) = bs"
  by (induction bs) (simp_all add: ascii_encode_def ascii_decode_def)

lemma b64_char_ascii: "unat (b64_char i) < 128"
  by (subst b64_char_of_nat, subst unat_of_nat_byte) (auto split: if_splits)

lemma b64encode_ascii: "b \<in> set (b64encode x) \<Longrightarrow> unat b < 128"
  by (induction x arbitrary: b rule: b64encode.induct)
     (auto simp: b64_char_ascii b64_pad_def)

lemma last_audio_path: "path_name (audio_path idx) = lit ''audio_'' @ str_int idx @ lit ''.wav''"
  by (simp add: path_name_def audio_path_def path_div_def)

text \<open>
  C5. Decoding the base64 encoding of any octet sequence gives the sequence back.
  For a file that exists, \<open>download_link\<close> returns an anchor whose target is the data
  URI \<^verbatim>\<open>data:audio/wav;base64,\<close> followed by the base64 text of exactly the octets of
  the file (decoding that text gives the octets back), and whose \<^verbatim>\<open>download\<close>
  attribute is the name of the file, the last component of its path; for the path
  that \<open>save_waveform\<close> returns that name is \<^verbatim>\<open>audio_<idx>.wav\<close>.
\<close>

theorem download_link_embeds_file:
  "b64decode (b64encode x) = Some x
   \<and> (files w (path_str file_path) = Some f \<longrightarrow>
        (\<exists>b64. download_link env file_path label w
             = Inr ([10] @ lit ''        <a href='' @ [34] @ lit ''data:audio/wav;base64,''
                    @ b64 @ [34] @ lit '' download='' @ [34] @ path_name file_path @ [34]
                    @ lit ''>'' @ label @ [32, 0x2B07] @ lit ''</a>'' @ [10] @ lit ''    '')
           \<and> b64 = ascii_decode (b64encode (wav_bytes env f))
           \<and> b64decode (ascii_encode b64) = Some (wav_bytes env f)))
   \<and> path_name (audio_path idx) = lit ''audio_'' @ str_int idx @ lit ''.wav''"
  by (simp add: b64_roundtrip download_link_def read_bytes_def link_html_def
      ascii_encode_decode last_audio_path)

theorem download_link_embeds_file_witness:
  "b64decode (b64encode [77, 97, 110]) = Some [77, 97, 110]
   \<and> b64encode [77, 97, 110] = ascii_encode (lit ''TWFu'')
   \<and> download_link demo_env (audio_path 0) (lit ''Save .wav'')
        (demo_world\<lparr>files := [lit ''audio_output/audio_0.wav''
            \<mapsto> \<lparr>af_wave = [[0, 0]], af_rate = 32000\<rparr>]\<rparr>)
      = Inr ([10] @ lit ''        <a href='' @ [34] @ lit ''data:audio/wav;base64,''
             @ lit ''IAAB'' @ [34] @ lit '' download='' @ [34] @ lit ''audio_0.wav'' @ [34]
             @ lit ''>'' @ lit ''Save .wav'' @ [32, 0x2B07] @ lit ''</a>'' @ [10] @ lit ''    '')"
  using download_link_embeds_file [of "[77, 97, 110]"
      "demo_world\<lparr>files := [lit ''audio_output/audio_0.wav''
            \<mapsto> \<lparr>af_wave = [[0, 0]], af_rate = 32000\<rparr>]\<rparr>"
      "audio_path 0" "\<lparr>af_wave = [[0, 0]], af_rate = 32000\<rparr>" demo_env "lit ''Save .wav''" 0]
  by (simp add: audio_path_0)
     (simp add: demo_env_def frames_def b64_char_def ascii_decode_def ascii_encode_def
        lit_def str_int_def digits.simps path_name_def audio_path_def path_div_def)


subsection \<open>The page\<close>

lemma dropWhile_all_iff: "(\<forall>x \<in> set (dropWhile P xs). P x) \<longleftrightarrow> (\<forall>x \<in> set xs. P x)"
proof
  assume a: "\<forall>x \<in> set (dropWhile P xs). P x"
  have "set xs = set (takeWhile P xs) \<union> set (dropWhile P xs)"
    by (metis set_append takeWhile_dropWhile_id)
  with a show "\<forall>x \<in> set xs. P x"
    by (auto dest: set_takeWhileD)
next
  assume "\<forall>x \<in> set xs. P x"
  then show "\<forall>x \<in> set (dropWhile P xs). P x"
    by (auto dest: set_dropWhileD)
qed

lemma strip_empty_iff: "strip s = [] \<longleftrightarrow> (\<forall>c \<in> set s. py_isspace c)"
proof -
  have "strip s = [] \<longleftrightarrow> (\<forall>c \<in> set (rev (dropWhile py_isspace s)). py_isspace c)"
    by (simp add: strip_def dropWhile_eq_Nil_conv)
  also have "\<dots> \<longleftrightarrow> (\<forall>c \<in> set s. py_isspace c)"
    by (simp add: dropWhile_all_iff)
  finally show ?thesis .
qed

lemma commit_in_range:
  "lo \<le> v \<Longrightarrow> v \<le> hi \<Longrightarrow>
   lo \<le> foldl (\<lambda>cur (x::int). if lo \<le> x \<and> x \<le> hi then x else cur) v es
   \<and> foldl (\<lambda>cur x. if lo \<le> x \<and> x \<le> hi then x else cur) v es \<le> hi"
  by (induction es arbitrary: v) auto

lemma number_input_range:
  "\<exists>d. number_input 1 30 10 es = Inr d \<and> 1 \<le> d \<and> d \<le> 30"
  using commit_in_range [of 1 10 30 es] by (simp add: number_input_def)

lemma save_waveform_keeps:
  "save_waveform env wave idx sr s = (res, s') \<Longrightarrow>
   requests s' = requests s \<and> heap s' = heap s \<and> cache s' = cache s
   \<and> loads s' = loads s \<and> next_ref s' = next_ref s"
  by (auto simp: save_waveform_def torchaudio_save_def split: if_splits)

lemma save_waveform_files:
  "save_waveform env wave idx sr s = (res, s') \<Longrightarrow>
   files s' = files s
   \<or> files s' = (files s)(path_str (audio_path idx) \<mapsto> \<lparr>af_wave = wave, af_rate = sr\<rparr>)"
  by (auto simp: save_waveform_def torchaudio_save_def split: if_splits)

lemma generate_music_files:
  "generate_music env description duration w = (res, w') \<Longrightarrow> files w' = files w"
  by (auto simp: generate_music_def generate_def set_generation_params_def load_model_def
      split: option.splits sum.splits list.splits)

lemma on_generate_world:
  "on_generate env description duration w = (oc, out, w') \<Longrightarrow>
   w' = w \<and> strip description = []
   \<or> strip description \<noteq> [] \<and> (\<exists>r1 w1 r2.
        generate_music env description duration w = (r1, w1)
      \<and> (w' = w1 \<or> save_waveform env (projr r1) 0 32000 w1 = (r2, w') \<and> isl r1 = False))"
  by (auto simp: on_generate_def split: if_splits prod.splits sum.splits)

lemma on_generate_requests:
  assumes "on_generate env description duration w = (oc, out, w')"
  shows "requests w' = requests w
    \<or> (\<exists>m. requests w' = requests w @ [(m, [description])]
          \<and> generation_params m
              = \<lparr>gp_use_sampling = True, gp_top_k = 250, gp_duration = duration\<rparr>)"
  using on_generate_world [OF assms]
  by (auto dest!: generate_music_requests save_waveform_keeps)

lemma on_generate_files:
  assumes "on_generate env description duration w = (oc, out, w')"
  shows "\<forall>p. p \<noteq> lit ''audio_output/audio_0.wav'' \<longrightarrow> files w' p = files w p"
  using on_generate_world [OF assms]
  by (auto dest!: generate_music_files save_waveform_files simp: audio_path_0)

lemma run_script_world:
  "run_script env inp w = (oc, out, w') \<Longrightarrow>
   w' = w
   \<or> (\<exists>d. number_input 1 30 10 (in_duration_entries inp) = Inr d
          \<and> on_generate env (in_description inp) d w = (oc, out, w'))"
  by (auto simp: run_script_def split: sum.splits page.splits if_splits)


text \<open>
  C3. For a prompt that is empty or consists of white space only, the body of the
  button branch shows the warning and stops: the outcome is \<open>Stopped\<close>, not a fault,
  and the world is the one it started in, so no model is loaded, no request is sent to
  the model and no file is written. The same holds for a whole run of the script with
  such a prompt: the world is unchanged, and when the directory is there, the Generate
  page is shown and the button was pressed, the run shows the warning and stops.
\<close>

theorem blank_prompt_stops:
  assumes "\<forall>c \<in> set description. py_isspace c"
  shows "on_generate env description duration w = (Stopped, [Warning warning_text], w)
    \<and> (in_description inp = description \<longrightarrow>
         snd (snd (run_script env inp w)) = w
       \<and> (mkdir_exist_ok env AUDIO_DIR w = Inr () \<and> in_page inp = Generate
            \<and> in_generate_btn inp \<longrightarrow>
          run_script env inp w = (Stopped, [Warning warning_text], w)))"
proof -
  have s: "strip description = []"
    using assms by (simp add: strip_empty_iff)
  then have g: "on_generate env description duration w = (Stopped, [Warning warning_text], w)"
    for duration
    by (simp add: on_generate_def)
  obtain d where d: "number_input 1 30 10 (in_duration_entries inp) = Inr d"
    using number_input_range by blast
  show ?thesis
    using g d by (auto simp: run_script_def split: sum.splits page.splits)
qed

theorem blank_prompt_stops_witness:
  "on_generate demo_env [32, 9, 0x3000] 10 demo_world
     = (Stopped, [Warning warning_text], demo_world)
   \<and> run_script demo_env
        \<lparr>in_page = Generate, in_description = [], in_duration_entries = [],
         in_generate_btn = True\<rparr> demo_world
     = (Stopped, [Warning warning_text], demo_world)"
proof -
  have a: "\<forall>c \<in> set [32, 9, 0x3000]. py_isspace c"
    by (simp add: py_isspace_def)
  have b: "\<forall>c \<in> set []. py_isspace c"
    by simp
  have m: "mkdir_exist_ok demo_env AUDIO_DIR demo_world = Inr ()"
    by (simp add: mkdir_exist_ok_def demo_env_def demo_world_def)
  show ?thesis
    using blank_prompt_stops [OF a, of demo_env 10 demo_world]
      blank_prompt_stops [OF b, of demo_env 10 demo_world
        "\<lparr>in_page = Generate, in_description = [], in_duration_entries = [],
          in_generate_btn = True\<rparr>"] m
    by simp
qed

lemma run_script_requests:
  assumes "run_script env inp w = (oc, out, w')"
  shows "\<exists>new. requests w' = requests w @ new
    \<and> (\<forall>rq \<in> set new. 1 \<le> gp_duration (generation_params (fst rq))
          \<and> gp_duration (generation_params (fst rq)) \<le> 30)"
proof -
  from run_script_world [OF assms] show ?thesis
  proof
    assume "w' = w"
    then show ?thesis by simp
  next
    assume "\<exists>d. number_input 1 30 10 (in_duration_entries inp) = Inr d
          \<and> on_generate env (in_description inp) d w = (oc, out, w')"
    then obtain d where d: "number_input 1 30 10 (in_duration_entries inp) = Inr d"
      and g: "on_generate env (in_description inp) d w = (oc, out, w')"
      by blast
    have r: "1 \<le> d \<and> d \<le> 30"
      using number_input_range [of "in_duration_entries inp"] d by simp
    from on_generate_requests [OF g] show ?thesis
    proof
      assume "requests w' = requests w"
      then show ?thesis by simp
    next
      assume "\<exists>m. requests w' = requests w @ [(m, [in_description inp])]
          \<and> generation_params m
              = \<lparr>gp_use_sampling = True, gp_top_k = 250, gp_duration = d\<rparr>"
      then obtain m where "requests w' = requests w @ [(m, [in_description inp])]"
        and "gp_duration (generation_params m) = d"
        by auto
      with r show ?thesis
        by (intro exI [of _ "[(m, [in_description inp])]"]) simp
    qed
  qed
qed

lemma run_session_requests:
  "\<exists>new. requests (run_session env inps w) = requests w @ new
    \<and> (\<forall>rq \<in> set new. 1 \<le> gp_duration (generation_params (fst rq))
          \<and> gp_duration (generation_params (fst rq)) \<le> 30)"
proof (induction inps arbitrary: w)
  case Nil
  show ?case by simp
next
  case (Cons inp inps)
  obtain oc out w1 where s: "run_script env inp w = (oc, out, w1)"
    by (cases "run_script env inp w") auto
  from run_script_requests [OF s] obtain new1 where
    n1: "requests w1 = requests w @ new1"
    "\<forall>rq \<in> set new1. 1 \<le> gp_duration (generation_params (fst rq))
          \<and> gp_duration (generation_params (fst rq)) \<le> 30"
    by blast
  from Cons.IH [of w1] obtain new2 where
    n2: "requests (run_session env inps w1) = requests w1 @ new2"
    "\<forall>rq \<in> set new2. 1 \<le> gp_duration (generation_params (fst rq))
          \<and> gp_duration (generation_params (fst rq)) \<le> 30"
    by blast
  show ?case
    using s n1 n2 by (intro exI [of _ "new1 @ new2"]) auto
qed

text \<open>
  C7. The value that the duration field hands to the script is an integer between 1
  and 30, whatever the user has entered; an entry of 0 or of 31 is not taken over, the
  field keeps the value it had. The script passes that value on unchanged, so every
  request that reaches the model in the course of a session, over any number of runs
  and whatever the inputs, carries a duration between 1 and 30.
\<close>

theorem duration_between_1_and_30:
  "(\<exists>d. number_input 1 30 10 entries = Inr d \<and> 1 \<le> d \<and> d \<le> 30)
   \<and> number_input 1 30 10 (entries @ [0]) = number_input 1 30 10 entries
   \<and> number_input 1 30 10 (entries @ [31]) = number_input 1 30 10 entries
   \<and> (\<forall>rq \<in> set (drop (length (requests w)) (requests (run_session env inps w))).
        1 \<le> gp_duration (generation_params (fst rq))
      \<and> gp_duration (generation_params (fst rq)) \<le> 30)"
proof -
  obtain new where "requests (run_session env inps w) = requests w @ new"
    and "\<forall>rq \<in> set new. 1 \<le> gp_duration (generation_params (fst rq))
          \<and> gp_duration (generation_params (fst rq)) \<le> 30"
    using run_session_requests by blast
  then show ?thesis
    using number_input_range [of entries] by (simp add: number_input_def)
qed

theorem duration_between_1_and_30_witness:
  "number_input 1 30 10 [0] = Inr 10 \<and> number_input 1 30 10 [7, 31] = Inr 7
   \<and> number_input 1 30 10 [30] = Inr 30 \<and> number_input 1 30 10 [1] = Inr 1
   \<and> requests (run_session demo_env
          [\<lparr>in_page = Generate, in_description = lit ''lofi'', in_duration_entries = [31],
            in_generate_btn = True\<rparr>] demo_world)
      = [(\<lparr>pretrained = lit ''facebook/musicgen-small'',
           generation_params = \<lparr>gp_use_sampling = True, gp_top_k = 250, gp_duration = 10\<rparr>\<rparr>,
          [lit ''lofi''])]"
proof -
  have "strip (lit ''lofi'') \<noteq> []"
    by (simp add: strip_def py_isspace_def lit_def)
  then show ?thesis
    using duration_between_1_and_30 [of "[7]" demo_world demo_env
      "[\<lparr>in_page = Generate, in_description = lit ''lofi'', in_duration_entries = [31],
         in_generate_btn = True\<rparr>]"]
    by (simp add: number_input_def run_script_def mkdir_exist_ok_def on_generate_def
        generate_music_def load_model_def set_generation_params_def generate_def
        save_waveform_def torchaudio_save_def read_bytes_def download_link_def
        demo_env_def demo_world_def blank_model_def)
qed

lemma run_script_files:
  assumes "run_script env inp w = (oc, out, w')"
  shows "\<forall>p. p \<noteq> lit ''audio_output/audio_0.wav'' \<longrightarrow> files w' p = files w p"
  using run_script_world [OF assms] on_generate_files by blast

lemma run_session_files:
  "p \<noteq> lit ''audio_output/audio_0.wav'' \<Longrightarrow> files (run_session env inps w) p = files w p"
proof (induction inps arbitrary: w)
  case Nil
  show ?case by simp
next
  case (Cons inp inps)
  obtain oc out w1 where s: "run_script env inp w = (oc, out, w1)"
    by (cases "run_script env inp w") auto
  have "files w1 p = files w p"
    using run_script_files [OF s] Cons.prems by simp
  then show ?case
    using s Cons.IH [OF Cons.prems, of w1] by simp
qed

text \<open>
  C10. The page calls \<open>save_waveform\<close> with the default index 0 only. So over a whole
  session, whatever the inputs and however many generations, the only file that a
  run creates or changes is \<^verbatim>\<open>audio_output/audio_0.wav\<close>: every other path holds what it
  held before, the set of files grows by at most that one path, and on a disk that was
  empty at the start there is never more than one file.
\<close>

theorem session_writes_one_path:
  "(\<forall>p. p \<noteq> lit ''audio_output/audio_0.wav'' \<longrightarrow>
        files (run_session env inps w) p = files w p)
   \<and> dom (files (run_session env inps w))
        \<subseteq> insert (lit ''audio_output/audio_0.wav'') (dom (files w))
   \<and> (files w = Map.empty \<longrightarrow> card (dom (files (run_session env inps w))) \<le> 1)
   \<and> path_str (audio_path 0) = lit ''audio_output/audio_0.wav''"
proof -
  let ?p = "lit ''audio_output/audio_0.wav''"
  let ?w = "run_session env inps w"
  have a: "\<forall>p. p \<noteq> ?p \<longrightarrow> files ?w p = files w p"
    by (simp add: run_session_files)
  have b: "dom (files ?w) \<subseteq> insert ?p (dom (files w))"
  proof
    fix q assume q: "q \<in> dom (files ?w)"
    show "q \<in> insert ?p (dom (files w))"
    proof (cases "q = ?p")
      case True
      then show ?thesis by simp
    next
      case False
      with a have "files ?w q = files w q" by simp
      with q show ?thesis by (auto simp: dom_def)
    qed
  qed
  have c: "card (dom (files ?w)) \<le> 1" if "files w = Map.empty"
  proof -
    from b that have "dom (files ?w) \<subseteq> {?p}" by simp
    then have "card (dom (files ?w)) \<le> card {?p}"
      by (intro card_mono) simp_all
    then show ?thesis by simp
  qed
  show ?thesis
    using a b c audio_path_0 by blast
qed


theorem session_writes_one_path_witness:
  "files (run_session demo_env
      [\<lparr>in_page = Generate, in_description = lit ''lofi'', in_duration_entries = [5],
         in_generate_btn = True\<rparr>,
       \<lparr>in_page = Generate, in_description = lit ''jazz'', in_duration_entries = [5, 2],
         in_generate_btn = True\<rparr>] demo_world) (lit ''audio_output/audio_1.wav'') = None
   \<and> card (dom (files (run_session demo_env
      [\<lparr>in_page = Generate, in_description = lit ''lofi'', in_duration_entries = [5],
         in_generate_btn = True\<rparr>,
       \<lparr>in_page = Generate, in_description = lit ''jazz'', in_duration_entries = [5, 2],
         in_generate_btn = True\<rparr>] demo_world))) \<le> 1"
  using session_writes_one_path [of demo_env
      "[\<lparr>in_page = Generate, in_description = lit ''lofi'', in_duration_entries = [5],
         in_generate_btn = True\<rparr>,
       \<lparr>in_page = Generate, in_description = lit ''jazz'', in_duration_entries = [5, 2],
         in_generate_btn = True\<rparr>]" demo_world]
  by (simp add: demo_world_def lit_def)

lemma on_generate_Completed:
  assumes "on_generate env description duration w = (Completed, out, w')"
  shows "\<exists>wave w1 bs link.
      strip description \<noteq> []
    \<and> generate_music env description duration w = (Inr wave, w1)
    \<and> save_waveform env wave 0 32000 w1 = (Inr (audio_path 0), w')
    \<and> read_bytes env (audio_path 0) w' = Inr bs
    \<and> download_link env (audio_path 0) (lit ''Save .wav'') w' = Inr link
    \<and> out = [Markdown card_open, Subheader (lit ''Your Track''),
             Audio bs (lit ''audio/wav''), Markdown link,
             Markdown (lit ''</div>''), Success success_text]"
proof -
  from assms have n: "strip description \<noteq> []"
    by (auto simp: on_generate_def split: if_splits)
  from assms n obtain wave w1 where
    g: "generate_music env description duration w = (Inr wave, w1)"
    by (auto simp: on_generate_def split: prod.splits sum.splits)
  from assms n g obtain fp w2 where
    s: "save_waveform env wave 0 32000 w1 = (Inr fp, w2)"
    by (auto simp: on_generate_def split: prod.splits sum.splits)
  then have fp: "fp = audio_path 0"
    by (auto simp: save_waveform_def split: prod.splits sum.splits)
  from assms n g s show ?thesis
    unfolding fp by (auto simp: on_generate_def split: sum.splits)
qed

text \<open>
  C8. In a run of the button branch that completes, the effects come in the order
  generate, save, read: the waveform was returned by \<open>generate_music\<close>, the save of
  that waveform at index 0 and 32 kHz returned the path and the world in which the
  reads happen, and in that world the file at the returned path holds that waveform.
  The octets given to the audio player are the octets of that file, and the link
  embeds the base64 text of the same octets. An older file at the path is never what
  is shown.
\<close>

theorem shown_bytes_are_the_saved_file:
  assumes "on_generate env description duration w = (Completed, out, w')"
  shows "\<exists>wave w1 f.
      generate_music env description duration w = (Inr wave, w1)
    \<and> save_waveform env wave 0 32000 w1 = (Inr (audio_path 0), w')
    \<and> f = \<lparr>af_wave = wave, af_rate = 32000\<rparr>
    \<and> files w' (path_str (audio_path 0)) = Some f
    \<and> out = [Markdown card_open, Subheader (lit ''Your Track''),
             Audio (wav_bytes env f) (lit ''audio/wav''),
             Markdown (link_html (ascii_decode (b64encode (wav_bytes env f)))
                         (lit ''audio_0.wav'') (lit ''Save .wav'')),
             Markdown (lit ''</div>''), Success success_text]"
proof -
  from on_generate_Completed [OF assms] obtain wave w1 bs link where
    g: "generate_music env description duration w = (Inr wave, w1)" and
    s: "save_waveform env wave 0 32000 w1 = (Inr (audio_path 0), w')" and
    r: "read_bytes env (audio_path 0) w' = Inr bs" and
    l: "download_link env (audio_path 0) (lit ''Save .wav'') w' = Inr link" and
    out: "out = [Markdown card_open, Subheader (lit ''Your Track''),
             Audio bs (lit ''audio/wav''), Markdown link,
             Markdown (lit ''</div>''), Success success_text]"
    by blast
  let ?f = "\<lparr>af_wave = wave, af_rate = 32000\<rparr>"
  from s have f: "files w' (path_str (audio_path 0)) = Some ?f"
    by (auto simp: save_waveform_def torchaudio_save_def split: if_splits)
  from r f have bs: "bs = wav_bytes env ?f"
    by (simp add: read_bytes_def)
  have nm: "path_name (audio_path 0) = lit ''audio_0.wav''"
    by (simp add: last_audio_path str_int_def digits.simps lit_def)
  from l f have link: "link = link_html (ascii_decode (b64encode (wav_bytes env ?f)))
      (lit ''audio_0.wav'') (lit ''Save .wav'')"
    by (simp add: download_link_def read_bytes_def nm)
  show ?thesis
    using g s f out bs link by blast
qed

lemmas pipeline_simps =
  on_generate_def generate_music_def load_model_def set_generation_params_def generate_def
  save_waveform_def torchaudio_save_def read_bytes_def download_link_def

lemma strip_lofi: "strip (lit ''lofi'') = lit ''lofi''"
  by (simp add: strip_def py_isspace_def lit_def)

lemma lit_lofi_not_Nil: "lit ''lofi'' \<noteq> []"
  by (simp add: lit_def)

theorem shown_bytes_are_the_saved_file_witness:
  "\<exists>out w'. on_generate demo_env (lit ''lofi'') 5 stale_world = (Completed, out, w')
    \<and> files w' (path_str (audio_path 0))
        = Some \<lparr>af_wave = [replicate 160000 0], af_rate = 32000\<rparr>
    \<and> out ! 2 = Audio [32, 5, 1] (lit ''audio/wav'')
    \<and> out ! 3 = Markdown (link_html (lit ''IAUB'') (lit ''audio_0.wav'') (lit ''Save .wav''))"
proof -
  obtain out w' where h: "on_generate demo_env (lit ''lofi'') 5 stale_world = (Completed, out, w')"
    by (simp add: pipeline_simps strip_lofi lit_lofi_not_Nil audio_path_0 demo_env_def
        stale_world_def demo_world_def blank_model_def)
  have g: "fst (generate_music demo_env (lit ''lofi'') 5 stale_world) = Inr [replicate 160000 0]"
    by (simp add: pipeline_simps demo_env_def stale_world_def demo_world_def blank_model_def)
  have b: "wav_bytes demo_env \<lparr>af_wave = [replicate 160000 0], af_rate = 32000\<rparr> = [32, 5, 1]"
    by (simp add: demo_env_def frames_def)
  have e: "ascii_decode (b64encode [32, 5, 1]) = lit ''IAUB''"
    by (simp add: ascii_decode_def b64_char_def lit_def)
  from shown_bytes_are_the_saved_file [OF h] g b e h show ?thesis
    by auto
qed


subsection \<open>One file per successful run\<close>

lemma generate_music_frames:
  assumes "generate_music env description duration w = (Inr wave, w')"
    and "honours_duration env tol" and "0 \<le> duration"
  shows "\<bar>int (frames wave) - 32000 * duration\<bar> \<le> int tol"
proof -
  from generate_music_Inr [OF assms(1)] obtain r rest where
    p: "generation_params (heap w' r)
        = \<lparr>gp_use_sampling = True, gp_top_k = 250, gp_duration = duration\<rparr>" and
    m: "model_generate env (length (requests w)) (heap w' r) [description] = Inr (wave # rest)"
    by blast
  from p have "gp_duration (generation_params (heap w' r)) = duration"
    by simp
  with m assms(2,3) show ?thesis
    unfolding honours_duration_def by fastforce
qed

lemma seconds_close:
  assumes "\<bar>int n - 32000 * d\<bar> \<le> int tol"
  shows "\<bar>real n / 32000 - real_of_int d\<bar> \<le> real tol / 32000"
proof -
  have "real_of_int \<bar>int n - 32000 * d\<bar> \<le> real_of_int (int tol)"
    using assms by (simp only: of_int_le_iff)
  then have a: "\<bar>real n - 32000 * real_of_int d\<bar> \<le> real tol"
    by simp
  have e: "real n / 32000 - real_of_int d = (real n - 32000 * real_of_int d) / 32000"
    by (simp add: field_simps)
  have "\<bar>real n / 32000 - real_of_int d\<bar> = \<bar>(real n - 32000 * real_of_int d) / 32000\<bar>"
    by (simp only: e)
  also have "\<dots> = \<bar>real n - 32000 * real_of_int d\<bar> / \<bar>32000\<bar>"
    by (rule abs_divide)
  also have "\<dots> = \<bar>real n - 32000 * real_of_int d\<bar> / 32000"
    by (simp only: abs_numeral)
  also have "\<dots> \<le> real tol / 32000"
    using a by (rule divide_right_mono) simp
  finally show ?thesis .
qed

lemma load_model_returns:
  assumes "case cache w of Some r \<Rightarrow> heap w r = m0
           | None \<Rightarrow> get_pretrained env (loads w) (lit ''facebook/musicgen-small'') = Inr m0"
  shows "\<exists>r w1. load_model env w = (Inr r, w1) \<and> heap w1 r = m0"
  using assms by (auto simp: load_model_def split: option.splits)

text \<open>
  C6, as the code has it. Take a prompt with at least one character that is not white
  space and a duration between 1 and 30, in an environment where the model is there
  (it is in the cache, or its load returns it), the model answers the request for
  this prompt and duration with a batch that has a waveform in it, and the path can be
  written. Then the button branch completes and writes exactly one file:
  \<^verbatim>\<open>audio_output/audio_0.wav\<close> now holds the first waveform of the batch at a sample
  rate of 32000, and every other path is as before. The length of the file in seconds
  is the number of frames of that waveform over 32000. How close that is to the
  request is up to the model: when the waveform is within \<open>tol\<close> frames of the requested
  duration at 32 kHz, and so whenever the model honours durations up to \<open>tol\<close>, the
  file is within \<open>tol / 32000\<close> seconds of the request.
\<close>

theorem pipeline_writes_one_file:
  assumes "strip description \<noteq> []" and "1 \<le> duration" and "duration \<le> 30"
    and "case cache w of Some r \<Rightarrow> heap w r = m0
         | None \<Rightarrow> get_pretrained env (loads w) (lit ''facebook/musicgen-small'') = Inr m0"
    and "model_generate env (length (requests w))
           (m0\<lparr>generation_params :=
                \<lparr>gp_use_sampling = True, gp_top_k = 250, gp_duration = duration\<rparr>\<rparr>)
           [description] = Inr (wave # rest)"
    and "writable env (path_str (audio_path 0))"
  shows "\<exists>out w' f.
      on_generate env description duration w = (Completed, out, w')
    \<and> files w' (lit ''audio_output/audio_0.wav'') = Some f
    \<and> (\<forall>p. p \<noteq> lit ''audio_output/audio_0.wav'' \<longrightarrow> files w' p = files w p)
    \<and> af_wave f = wave \<and> af_rate f = 32000
    \<and> seconds f = real (frames wave) / 32000
    \<and> (\<forall>tol. \<bar>int (frames wave) - 32000 * duration\<bar> \<le> int tol \<longrightarrow>
          \<bar>seconds f - real_of_int duration\<bar> \<le> real tol / 32000)
    \<and> (\<forall>tol. honours_duration env tol \<longrightarrow>
          \<bar>seconds f - real_of_int duration\<bar> \<le> real tol / 32000)"
proof -
  from load_model_returns [OF assms(4)] obtain r w0 where
    l: "load_model env w = (Inr r, w0)" and m0: "heap w0 r = m0"
    by blast
  from generate_music_after_load [OF l, of description duration] m0 assms(5)
  obtain w1 where g: "generate_music env description duration w = (Inr wave, w1)"
    by simp
  have fw: "files w1 = files w"
    using generate_music_files [OF g] .
  let ?f = "\<lparr>af_wave = wave, af_rate = 32000\<rparr>"
  let ?w' = "w1\<lparr>files := (files w1)(path_str (audio_path 0) \<mapsto> ?f)\<rparr>"
  have s: "save_waveform env wave 0 32000 w1 = (Inr (audio_path 0), ?w')"
    using save_waveform_writable [OF assms(6)] .
  have "\<exists>out. on_generate env description duration w = (Completed, out, ?w')"
    using assms(1) g s by (simp add: on_generate_def read_bytes_def download_link_def)
  then obtain out where c: "on_generate env description duration w = (Completed, out, ?w')"
    by blast
  have sec: "seconds ?f = real (frames wave) / 32000"
    by (simp add: seconds_def)
  have loc: "\<bar>seconds ?f - real_of_int duration\<bar> \<le> real tol / 32000"
    if "\<bar>int (frames wave) - 32000 * duration\<bar> \<le> int tol" for tol
    using seconds_close [OF that] by (simp add: seconds_def)
  have glob: "\<bar>seconds ?f - real_of_int duration\<bar> \<le> real tol / 32000"
    if "honours_duration env tol" for tol
  proof -
    have "\<bar>int (frames wave) - 32000 * duration\<bar> \<le> int tol"
      using generate_music_frames [OF g that] assms(2) by simp
    then show ?thesis by (rule loc)
  qed
  have f1: "files ?w' (lit ''audio_output/audio_0.wav'') = Some ?f"
    by (simp add: audio_path_0)
  have f2: "\<forall>p. p \<noteq> lit ''audio_output/audio_0.wav'' \<longrightarrow> files ?w' p = files w p"
    by (simp add: audio_path_0 fw)
  show ?thesis
    using c f1 f2 sec loc glob
    by (intro exI [of _ out] exI [of _ ?w'] exI [of _ ?f]) simp
qed

lemma demo_honours_duration: "honours_duration demo_env 0"
  by (auto simp: honours_duration_def demo_env_def frames_def)

theorem pipeline_writes_one_file_witness:
  "\<exists>out w' f. on_generate demo_env (lit ''lofi'') 5 stale_world = (Completed, out, w')
    \<and> files w' (lit ''audio_output/audio_0.wav'') = Some f
    \<and> files stale_world (lit ''audio_output/audio_0.wav'')
        = Some \<lparr>af_wave = [[1, 1], [1, 1]], af_rate = 44100\<rparr>
    \<and> af_wave f = [replicate 160000 0] \<and> af_rate f = 32000 \<and> seconds f = 5"
proof -
  have a: "strip (lit ''lofi'') \<noteq> []"
    by (simp add: strip_lofi lit_lofi_not_Nil)
  have r1: "(1::int) \<le> 5" and r2: "(5::int) \<le> 30"
    by simp_all
  have l: "case cache stale_world of
        Some r \<Rightarrow> heap stale_world r = \<lparr>pretrained = lit ''facebook/musicgen-small'',
          generation_params = \<lparr>gp_use_sampling = True, gp_top_k = 250, gp_duration = 15\<rparr>\<rparr>
      | None \<Rightarrow> get_pretrained demo_env (loads stale_world) (lit ''facebook/musicgen-small'')
          = Inr \<lparr>pretrained = lit ''facebook/musicgen-small'',
          generation_params = \<lparr>gp_use_sampling = True, gp_top_k = 250, gp_duration = 15\<rparr>\<rparr>"
    by (simp add: stale_world_def demo_world_def demo_env_def)
  have g: "model_generate demo_env (length (requests stale_world))
       (\<lparr>pretrained = lit ''facebook/musicgen-small'',
          generation_params = \<lparr>gp_use_sampling = True, gp_top_k = 250, gp_duration = 15\<rparr>\<rparr>
        \<lparr>generation_params :=
            \<lparr>gp_use_sampling = True, gp_top_k = 250, gp_duration = 5\<rparr>\<rparr>)
       [lit ''lofi''] = Inr ([replicate 160000 0] # [])"
    by (simp add: demo_env_def)
  have wr: "writable demo_env (path_str (audio_path 0))"
    by (simp add: demo_env_def)
  have fr: "\<bar>int (frames [replicate 160000 (0::real)]) - 32000 * 5\<bar> \<le> int 0"
    by (simp add: frames_def)
  have st: "files stale_world (lit ''audio_output/audio_0.wav'')
        = Some \<lparr>af_wave = [[1, 1], [1, 1]], af_rate = 44100\<rparr>"
    by (simp add: stale_world_def)
  from pipeline_writes_one_file [OF a r1 r2 l g wr] obtain out w' f where
    c: "on_generate demo_env (lit ''lofi'') 5 stale_world = (Completed, out, w')" and
    f: "files w' (lit ''audio_output/audio_0.wav'') = Some f" and
    wv: "af_wave f = [replicate 160000 0]" and rt: "af_rate f = 32000" and
    tl: "\<forall>tol. \<bar>int (frames [replicate 160000 (0::real)]) - 32000 * 5\<bar> \<le> int tol \<longrightarrow>
          \<bar>seconds f - real_of_int 5\<bar> \<le> real tol / 32000"
    by blast
  from tl fr have "\<bar>seconds f - real_of_int 5\<bar> \<le> real 0 / 32000"
    by blast
  then have sec: "seconds f = 5"
    by simp
  show ?thesis
    using c f wv rt sec st by blast
qed

text \<open>
  C6, as the claim states it, fails: the prompt that consists of one space is not
  empty, the duration 10 is in range, and the run writes no file. It shows the
  warning and stops, on a disk that is as empty as before.
\<close>

theorem nonempty_blank_prompt_counterexample:
  "[32] \<noteq> ([] :: pystr) \<and> (1 :: int) \<le> 10 \<and> (10 :: int) \<le> 30
   \<and> run_script demo_env
        \<lparr>in_page = Generate, in_description = [32], in_duration_entries = [],
         in_generate_btn = True\<rparr> demo_world
      = (Stopped, [Warning warning_text], demo_world)
   \<and> dom (files demo_world) = {}"
  by (simp add: run_script_def mkdir_exist_ok_def number_input_def on_generate_def strip_def
      py_isspace_def demo_env_def demo_world_def)

subsection \<open>The shared model object\<close>

lemma generate_music_cached:
  assumes "cache w = Some r" and "generate_music env description duration w = (res, w1)"
  shows "heap w1 = (heap w)(r := (heap w r)\<lparr>generation_params :=
            \<lparr>gp_use_sampling = True, gp_top_k = 250, gp_duration = duration\<rparr>\<rparr>)
    \<and> cache w1 = Some r \<and> loads w1 = loads w \<and> next_ref w1 = next_ref w"
  using assms
  by (auto simp: generate_music_def load_model_def generate_def set_generation_params_def
      split: sum.splits list.splits)

text \<open>
  C9, as the code has it. Once the model is in the cache, a run of the button branch
  never replaces, reloads or re-allocates it: the cache holds the same reference, no
  load happens, the checkpoint of the object is the same and no other object changes.
  What a run does change in the shared object is its generation parameters: unless
  the prompt is blank, \<open>set_generation_params\<close> overwrites them with sampling, top-k
  250 and the duration of this request.
\<close>

theorem pipeline_overwrites_generation_params_only:
  assumes "cache w = Some r" and "on_generate env description duration w = (oc, out, w')"
  shows "cache w' = Some r \<and> loads w' = loads w \<and> next_ref w' = next_ref w
    \<and> pretrained (heap w' r) = pretrained (heap w r)
    \<and> (\<forall>r'. r' \<noteq> r \<longrightarrow> heap w' r' = heap w r')
    \<and> generation_params (heap w' r)
        = (if strip description = [] then generation_params (heap w r)
           else \<lparr>gp_use_sampling = True, gp_top_k = 250, gp_duration = duration\<rparr>)"
proof (cases "strip description = []")
  case True
  with assms(2) have "w' = w"
    by (simp add: on_generate_def)
  with True assms(1) show ?thesis
    by simp
next
  case False
  with on_generate_world [OF assms(2)] obtain r1 w1 r2 where
    g: "generate_music env description duration w = (r1, w1)" and
    k: "w' = w1 \<or> save_waveform env (projr r1) 0 32000 w1 = (r2, w')"
    by auto
  from k have e: "heap w' = heap w1 \<and> cache w' = cache w1 \<and> loads w' = loads w1
      \<and> next_ref w' = next_ref w1"
    by (auto dest: save_waveform_keeps)
  from generate_music_cached [OF assms(1) g] e False show ?thesis
    by simp
qed

theorem pipeline_overwrites_generation_params_only_witness:
  "cache (snd (load_model demo_env demo_world)) = Some 0
   \<and> cache (snd (snd (on_generate demo_env (lit ''lofi'') 5
        (snd (load_model demo_env demo_world))))) = Some 0
   \<and> pretrained (heap (snd (snd (on_generate demo_env (lit ''lofi'') 5
        (snd (load_model demo_env demo_world))))) 0) = lit ''facebook/musicgen-small''
   \<and> gp_duration (generation_params (heap (snd (snd (on_generate demo_env (lit ''lofi'') 5
        (snd (load_model demo_env demo_world))))) 0)) = 5"
proof -
  have c: "cache (snd (load_model demo_env demo_world)) = Some 0"
    by (simp add: load_model_def demo_env_def demo_world_def)
  have p: "pretrained (heap (snd (load_model demo_env demo_world)) 0)
      = lit ''facebook/musicgen-small''"
    by (simp add: load_model_def demo_env_def demo_world_def)
  obtain oc out w' where
    h: "on_generate demo_env (lit ''lofi'') 5 (snd (load_model demo_env demo_world)) = (oc, out, w')"
    by (cases "on_generate demo_env (lit ''lofi'') 5 (snd (load_model demo_env demo_world))") auto
  from pipeline_overwrites_generation_params_only [OF c h] c p h show ?thesis
    by (simp add: strip_lofi lit_lofi_not_Nil)
qed

text \<open>
  C9, as the claim states it, fails: after the load the shared object has the
  duration the library gave it, 15; after one generation of 5 seconds the same
  object, at the same reference, has the duration 5.
\<close>

theorem shared_model_mutated_counterexample:
  "cache (snd (load_model demo_env demo_world)) = Some 0
   \<and> gp_duration (generation_params (heap (snd (load_model demo_env demo_world)) 0)) = 15
   \<and> cache (snd (generate_music demo_env (lit ''lofi'') 5
        (snd (load_model demo_env demo_world)))) = Some 0
   \<and> gp_duration (generation_params (heap (snd (generate_music demo_env (lit ''lofi'') 5
        (snd (load_model demo_env demo_world)))) 0)) = 5
   \<and> heap (snd (generate_music demo_env (lit ''lofi'') 5
        (snd (load_model demo_env demo_world)))) 0
      \<noteq> heap (snd (load_model demo_env demo_world)) 0"
  by (simp add: generate_music_def load_model_def generate_def set_generation_params_def
      demo_env_def demo_world_def)

end
